theory Spec2Isabelle
  imports Complex_Main
begin

section \<open>Conventions of the embedding\<close>

text \<open>
  The development embeds \<^verbatim>\<open>python_ontology.py\<close> and the evaluation engine of
  \<^verbatim>\<open>ontology_quiz_generator.py\<close>.

  \<^item> A Python \<^verbatim>\<open>str\<close> is a \<^typ>\<open>string\<close>; the model of \<^verbatim>\<open>str.lower\<close> and
    \<^verbatim>\<open>str.split\<close> is the ASCII one (all texts of the repository are ASCII).
  \<^item> A Python \<^verbatim>\<open>float\<close> is an exact rational (\<^typ>\<open>rat\<close>): the rounding of binary
    floating point is not modelled, the comparisons and the branch structure are.
  \<^item> A \<^verbatim>\<open>dict\<close> is a map; \<^verbatim>\<open>d.get(k, v)\<close> is a case distinction on the lookup.
  \<^item> A raised exception is the left injection of a sum type.
\<close>

datatype error = ZeroDivisionError

text \<open>\<^verbatim>\<open>a / b\<close> on two \<^verbatim>\<open>int\<close>s and on two \<^verbatim>\<open>float\<close>s: both raise on a zero divisor.\<close>

definition int_truediv :: "int \<Rightarrow> int \<Rightarrow> error + rat" where
  "int_truediv a b = (if b = 0 then Inl ZeroDivisionError else Inr (of_int a / of_int b))"

definition float_truediv :: "rat \<Rightarrow> rat \<Rightarrow> error + rat" where
  "float_truediv a b = (if b = 0 then Inl ZeroDivisionError else Inr (a / b))"

section \<open>python\_ontology.py\<close>

datatype Relationship = Relationship (rel_type: string) (target: string)

datatype OntologyNode =
  OntologyNode (name: string) (description: string) (difficulty: string)
    (examples: "string list") (relationships: "Relationship list")
    (children: "OntologyNode list")

text \<open>The constructor call with the defaults of the dataclass for the omitted fields.\<close>

definition node :: "string \<Rightarrow> string \<Rightarrow> string \<Rightarrow> string list \<Rightarrow> OntologyNode" where
  "node n d diff ex = OntologyNode n d diff ex [] []"

definition node_default :: "string \<Rightarrow> string \<Rightarrow> OntologyNode" where
  "node_default n d = node n d ''Beginner'' []"

fun add_child :: "OntologyNode \<Rightarrow> OntologyNode \<Rightarrow> OntologyNode" where
  "add_child (OntologyNode n d diff ex rels cs) child = OntologyNode n d diff ex rels (cs @ [child])"

fun add_relationship :: "OntologyNode \<Rightarrow> string \<Rightarrow> string \<Rightarrow> OntologyNode" where
  "add_relationship (OntologyNode n d diff ex rels cs) relation tgt =
     OntologyNode n d diff ex (rels @ [Relationship relation tgt]) cs"

text \<open>\<^verbatim>\<open>parent.children.extend(nodes)\<close>\<close>

fun children_extend :: "OntologyNode \<Rightarrow> OntologyNode list \<Rightarrow> OntologyNode" where
  "children_extend (OntologyNode n d diff ex rels cs) nodes = OntologyNode n d diff ex rels (cs @ nodes)"

definition build_python_ontology :: OntologyNode where
  "build_python_ontology =
    (let root = node_default ''PythonProgramming''
           ''Comprehensive ontology covering Python concepts and their relationships.'';
         core = node_default ''CoreLanguage'' ''Fundamental Python syntax and features.'';
         data_types = node ''DataTypes'' ''Primitive and composite types available in Python.''
           ''Beginner'' [''x = 1'', ''name = 'Alice'' @ [CHR 0x27]];
         numbers = node ''Numbers'' ''Integers, floats and numeric operations.''
           ''Beginner'' [''result = 2 + 3''];
         strings = node ''Strings'' ''Text sequences and related operations.''
           ''Beginner'' [''greeting = 'hello'.upper()''];
         lists = node ''Lists'' ''Mutable ordered collections.''
           ''Beginner'' [''items = [1, 2, 3]''];
         tuples = node ''Tuples'' ''Immutable ordered collections.''
           ''Beginner'' [''point = (1, 2)''];
         dictionaries = node ''Dictionaries'' ''Key-value mappings.''
           ''Beginner'' [''ages = {'Bob': 30}''];
         sets = node ''Sets'' ''Unordered collections of unique elements.''
           ''Beginner'' [''unique = set([1, 2, 2, 3])''];
         booleans = node ''Booleans'' ''True/False values used in logic.''
           ''Beginner'' [''flag = True''];
         arithmetic = node ''Arithmetic''
           ''Basic mathematical operations such as addition and subtraction.''
           ''Beginner'' [''result = 2 + 2'', ''total = 5 - 3''];
         keywords = node ''Keywords'' ''Reserved words that have special meaning in Python syntax.''
           ''Beginner'' [''if'', ''for'', ''while''];
         builtins_node = node ''Builtins'' ''Common functions that are always available in Python.''
           ''Beginner'' [''len(obj)'', ''range(10)''];
         modules = node ''Modules'' ''Organizing and importing reusable pieces of code.''
           ''Intermediate'' [''import math''];
         data_types = fold (\<lambda>nd dt. add_child dt nd)
           [numbers, strings, lists, tuples, dictionaries, sets, booleans, arithmetic,
            keywords, builtins_node, modules] data_types;
         control_structures = node ''ControlStructures'' ''Flow control statements and loops.''
           ''Beginner'' [''if x > 0:'', ''for i in range(5):''];
         conditions = node ''Conditions'' ''if/elif/else statements.''
           ''Beginner'' [''if value == 1:''];
         loops = node ''Loops'' ''for and while loops.''
           ''Beginner'' [''while count < 10:''];
         control_structures = children_extend control_structures [conditions, loops];
         functions = node ''Functions'' ''Function definitions and calls.''
           ''Intermediate'' [''def add(a, b):'', ''return a + b''];
         classes = node ''Classes'' ''Object-oriented programming with classes.''
           ''Intermediate'' [''class Car:'', ''    pass''];
         fileio = node ''FileIO'' ''Reading from and writing to files on disk.''
           ''Intermediate'' [''open('data.txt', 'r')''];
         exceptions = node ''Exceptions'' ''Handling errors with try/except blocks.''
           ''Intermediate''
           [''try:'' @ [CHR 0x0A] @ ''    pass'' @ [CHR 0x0A] @ ''except Exception:''];
         concurrency = node ''Concurrency'' ''Running multiple operations at the same time.''
           ''Advanced'' [''import threading''];
         core = children_extend core
           [data_types, control_structures, functions, classes, fileio, exceptions];
         stdlib = node ''StandardLibrary'' ''Commonly used modules that ship with Python.''
           ''Intermediate'' [''import os'', ''import sys''];
         json_mod = node ''json'' ''JSON encoding and decoding.''
           ''Intermediate''
           [''import json'',
            ''json.loads('{'' @ [CHR 0x22] @ ''key'' @ [CHR 0x22] @ '': 1}')''];
         csv_mod = node ''csv'' ''CSV reading and writing.''
           ''Intermediate'' [''import csv'', ''csv.reader(...)''];
         stdlib = children_extend stdlib [json_mod, csv_mod];
         functional = node ''FunctionalProgramming''
           ''Using functions as first-class objects and related paradigms.''
           ''Intermediate'' [''map(str, items)'', ''lambda x: x * 2''];
         decorators = node ''Decorators'' ''Functions that modify other functions or methods.''
           ''Advanced'' [''@cache'', ''def func(...): ...''];
         functional = add_child functional decorators;
         ds_algo = node ''DataStructuresAlgorithms'' ''Classic data structures and algorithms.''
           ''Intermediate'' [''stack.append(x)'', ''sorted(items)''];
         searching = node ''Searching'' ''Techniques such as binary search.''
           ''Intermediate'' [''bisect.bisect_left(...)''];
         sorting = node ''Sorting'' ''Algorithms that order data.''
           ''Intermediate'' [''sorted(list_of_values)''];
         algorithms = node ''Algorithms'' ''General techniques for solving computational problems.''
           ''Intermediate'' [''binary search'', ''merge sort''];
         ds_algo = children_extend ds_algo [searching, sorting, algorithms];
         web = node ''WebFrameworks'' ''Popular Python web frameworks.''
           ''Intermediate'' [''from flask import Flask''];
         flask = node ''Flask'' ''Lightweight WSGI web application framework.''
           ''Intermediate'' [''app = Flask(__name__)''];
         django = node ''Django'' ''Full-featured web framework for large applications.''
           ''Intermediate'' [''django-admin startproject mysite''];
         web = children_extend web [flask, django];
         data_science = node ''DataScienceLibraries''
           ''Libraries used for data analysis and visualization.''
           ''Intermediate'' [''import numpy as np'', ''import pandas as pd''];
         numpy_node = node ''NumPy'' ''Numerical computing with arrays.''
           ''Intermediate'' [''np.array([1, 2, 3])''];
         pandas_node = node ''Pandas'' ''Data analysis and manipulation library.''
           ''Intermediate'' [''pd.DataFrame({'a': [1, 2]})''];
         matplotlib_node = node ''Matplotlib'' ''2D plotting library for creating visualizations.''
           ''Intermediate'' [''plt.plot(x, y)''];
         data_science = children_extend data_science [numpy_node, pandas_node, matplotlib_node];
         ml = node ''MachineLearning'' ''Frameworks for building machine learning models.''
           ''Advanced'' [''import tensorflow as tf''];
         tensorflow_node = node ''TensorFlow'' ''End-to-end platform for machine learning.''
           ''Advanced'' [''tf.constant([1, 2])''];
         pytorch_node = node ''PyTorch'' ''Deep learning framework emphasizing flexibility.''
           ''Advanced'' [''import torch''];
         ml = children_extend ml [tensorflow_node, pytorch_node];
         testing = node ''TestingDebugging'' ''Tools for testing and debugging Python code.''
           ''Intermediate'' [''import unittest''];
         unittest_node = node ''unittest'' ''Built-in unit testing framework.''
           ''Intermediate'' [''unittest.TestCase''];
         pytest_node = node ''pytest'' ''Popular third-party testing framework.''
           ''Intermediate'' [''pytest.raises(ValueError)''];
         testing = children_extend testing [unittest_node, pytest_node];
         devops = node ''DevOps'' ''Practices for packaging and deploying Python applications.''
           ''Advanced'' [''docker build'', ''pip install''];
         venv_node = node ''VirtualEnvironments''
           ''Isolated Python environments for dependency management.''
           ''Intermediate'' [''python -m venv env''];
         packaging_node = node ''Packaging'' ''Creating distributable Python packages.''
           ''Advanced'' [''python -m build''];
         devops = children_extend devops [venv_node, packaging_node]
     in children_extend root
          [core, stdlib, functional, ds_algo, web, data_science, ml, concurrency, testing, devops])"

text \<open>
  \<^verbatim>\<open>iter_nodes\<close>: the generator is the list of the nodes it yields, in order. The stack
  is the Python list: \<^verbatim>\<open>pop()\<close> takes its last element, \<^verbatim>\<open>extend\<close> appends.
\<close>

function iter_nodes_loop :: "OntologyNode list \<Rightarrow> OntologyNode list" where
  "iter_nodes_loop stack =
     (if stack = [] then []
      else let nd = last stack; stack = butlast stack
           in nd # iter_nodes_loop (stack @ children nd))"
  by pat_completeness auto
definition iter_nodes :: "OntologyNode \<Rightarrow> OntologyNode list" where
  "iter_nodes root_node = iter_nodes_loop [root_node]"

text \<open>The dict comprehension: a later node overwrites an earlier one of the same name.\<close>

definition ontology_as_dict :: "OntologyNode \<Rightarrow> (string \<rightharpoonup> string)" where
  "ontology_as_dict root_node =
     fold (\<lambda>nd m. m(name nd \<mapsto> description nd)) (iter_nodes root_node) Map.empty"


section \<open>ontology\_quiz\_generator.py\<close>

subsection \<open>Module state\<close>

definition ONTOLOGY_ROOT :: OntologyNode where
  "ONTOLOGY_ROOT = build_python_ontology"

text \<open>The dictionary of the ontology, then \<^verbatim>\<open>LEARNING_MATERIALS.update({...})\<close>.\<close>

definition LEARNING_MATERIALS :: "string \<rightharpoonup> string" where
  "LEARNING_MATERIALS = (ontology_as_dict ONTOLOGY_ROOT)
     (''Algorithms'' \<mapsto>
        ''Algorithms are step-by-step procedures for solving problems. In '' @
        ''Python, you can implement algorithms for sorting, searching, and '' @
        ''manipulating data.'',
      ''RelationalOperator'' \<mapsto>
        ''In Python, relational operators compare two values and return a Boolean result (True or False).'',
      ''LogicalOperator'' \<mapsto>
        ''In Python, logical operators combine multiple conditions into a single Boolean result.'',
      ''Variable'' \<mapsto>
        ''In Python, a variable is a named reference to a value stored in memory.'')"

text \<open>
  \<^verbatim>\<open>MODEL\<close> and \<^verbatim>\<open>util\<close>: either both \<^verbatim>\<open>None\<close> (the import or the download failed), or the
  loaded sentence-transformer. The library is not part of the repository: the loaded
  model is the function \<open>cos_sim\<close>, standing for
  \<^verbatim>\<open>float(util.cos_sim(MODEL.encode(a), MODEL.encode(b)))\<close>.
\<close>

datatype backend = Lexical | Embedding "string \<Rightarrow> string \<Rightarrow> rat"

text \<open>
  \<^verbatim>\<open>_HAS_SKLEARN\<close>: the four functions of \<^verbatim>\<open>sklearn.metrics\<close> when the import succeeded
  (the last three stand for the calls with \<^verbatim>\<open>zero_division=0\<close>), \<open>None\<close> when it failed;
  only then does the module define \<^verbatim>\<open>compute_metrics\<close>.
\<close>

record sklearn_metrics =
  accuracy_score :: "int list \<Rightarrow> int list \<Rightarrow> rat"
  precision_score :: "int list \<Rightarrow> int list \<Rightarrow> rat"
  recall_score :: "int list \<Rightarrow> int list \<Rightarrow> rat"
  f1_score :: "int list \<Rightarrow> int list \<Rightarrow> rat"

subsection \<open>compute\_metrics\<close>

text \<open>\<^verbatim>\<open>sum(1 for t, p in zip(y_true, y_pred) if cond)\<close>\<close>

definition count_pairs :: "(int \<Rightarrow> int \<Rightarrow> bool) \<Rightarrow> int list \<Rightarrow> int list \<Rightarrow> int" where
  "count_pairs cond y_true y_pred =
     sum_list (map (\<lambda>tp. 1) (filter (\<lambda>(t, p). cond t p) (zip y_true y_pred)))"

definition compute_metrics :: "int list \<Rightarrow> int list \<Rightarrow> error + (rat \<times> rat \<times> rat \<times> rat)" where
  "compute_metrics y_true y_pred =
    (let tp = count_pairs (\<lambda>t p. t = p \<and> p = 1) y_true y_pred;
         fp = count_pairs (\<lambda>t p. t = 0 \<and> p = 1) y_true y_pred;
         fn = count_pairs (\<lambda>t p. t = 1 \<and> p = 0) y_true y_pred;
         tn = count_pairs (\<lambda>t p. t = p \<and> p = 0) y_true y_pred
     in case int_truediv (tp + tn) (tp + fp + fn + tn) of
          Inl e \<Rightarrow> Inl e
        | Inr accuracy \<Rightarrow>
     (case (if tp + fp \<noteq> 0 then int_truediv tp (tp + fp) else Inr 0) of
          Inl e \<Rightarrow> Inl e
        | Inr precision \<Rightarrow>
     (case (if tp + fn \<noteq> 0 then int_truediv tp (tp + fn) else Inr 0) of
          Inl e \<Rightarrow> Inl e
        | Inr recall \<Rightarrow>
     (case (if precision + recall \<noteq> 0
            then float_truediv (2 * precision * recall) (precision + recall) else Inr 0) of
          Inl e \<Rightarrow> Inl e
        | Inr f1 \<Rightarrow> Inr (accuracy, precision, recall, f1)))))"

subsection \<open>Strings\<close>

text \<open>\<^verbatim>\<open>str.lower\<close> on ASCII text.\<close>

definition char_lower :: "char \<Rightarrow> char" where
  "char_lower c =
     (case map_of (zip ''ABCDEFGHIJKLMNOPQRSTUVWXYZ'' ''abcdefghijklmnopqrstuvwxyz'') c of
        Some l \<Rightarrow> l
      | None \<Rightarrow> c)"

definition str_lower :: "string \<Rightarrow> string" where
  "str_lower s = map char_lower s"

text \<open>
  \<^verbatim>\<open>str.isspace\<close> on an ASCII character: tab, line feed, vertical tab, form feed,
  carriage return, the four separators \<^verbatim>\<open>0x1c\<close> to \<^verbatim>\<open>0x1f\<close>, and the space.
\<close>

definition isspace :: "char \<Rightarrow> bool" where
  "isspace c =
     (let n = (of_char c :: nat) in (9 \<le> n \<and> n \<le> 13) \<or> (28 \<le> n \<and> n \<le> 31) \<or> n = 32)"

text \<open>
  \<^verbatim>\<open>str.split()\<close> with no separator: the maximal runs of characters that are not
  whitespace, in order; \<open>word\<close> is the run being read.
\<close>

fun split_from :: "string \<Rightarrow> string \<Rightarrow> string list" where
  "split_from word [] = (if word = [] then [] else [word])"
| "split_from word (c # cs) =
     (if isspace c then (if word = [] then split_from [] cs else word # split_from [] cs)
      else split_from (word @ [c]) cs)"

definition str_split :: "string \<Rightarrow> string list" where
  "str_split s = split_from [] s"

text \<open>\<^verbatim>\<open>sep.join(parts)\<close>\<close>

fun str_join :: "string \<Rightarrow> string list \<Rightarrow> string" where
  "str_join sep [] = []"
| "str_join sep [x] = x"
| "str_join sep (x # y # ys) = x @ sep @ str_join sep (y # ys)"

text \<open>
  \<^verbatim>\<open>f"{x:.2f}"\<close>: the sign, the integer part and two decimals of \<open>x\<close>, rounded to the
  nearest hundredth, a tie to the even one.
\<close>

definition digit_char :: "nat \<Rightarrow> char" where
  "digit_char d = ''0123456789'' ! d"

fun str_of_nat :: "nat \<Rightarrow> string" where
  "str_of_nat n =
     (if n < 10 then [digit_char n] else str_of_nat (n div 10) @ [digit_char (n mod 10)])"

definition round_half_even :: "rat \<Rightarrow> int" where
  "round_half_even x =
     (let f = \<lfloor>x\<rfloor>; r = x - of_int f
      in if r < 1 / 2 then f else if 1 / 2 < r then f + 1 else if even f then f else f + 1)"

definition format_2f :: "rat \<Rightarrow> string" where
  "format_2f x =
     (let n = nat (round_half_even (\<bar>x\<bar> * 100))
      in (if x < 0 then ''-'' else []) @ str_of_nat (n div 100) @ ''.'' @
         [digit_char (n mod 100 div 10), digit_char (n mod 10)])"

subsection \<open>Similarity and evaluation\<close>

fun bert_similarity :: "backend \<Rightarrow> string \<Rightarrow> string \<Rightarrow> error + rat" where
  "bert_similarity Lexical text_a text_b =
     (let set_a = set (str_split (str_lower text_a));
          set_b = set (str_split (str_lower text_b))
      in if set_a = {} \<and> set_b = {} then Inr 1
         else int_truediv (int (card (set_a \<inter> set_b))) (int (card (set_a \<union> set_b))))"
| "bert_similarity (Embedding cos_sim) text_a text_b =
     (if text_a = [] \<and> text_b = [] then Inr 1 else Inr (cos_sim text_a text_b))"

definition generate_learning_material :: "string \<Rightarrow> string" where
  "generate_learning_material domain =
     (case LEARNING_MATERIALS domain of
        Some text \<Rightarrow> text
      | None \<Rightarrow> ''No materials available for this topic.'')"

record mcq =
  question :: string
  options :: "string list"
  answer :: string
  mcq_difficulty :: string

definition generate_mcqs :: "string \<Rightarrow> (string \<rightharpoonup> mcq list) \<Rightarrow> mcq list" where
  "generate_mcqs domain bank = (case bank domain of Some qs \<Rightarrow> qs | None \<Rightarrow> [])"

definition evaluate_material :: "backend \<Rightarrow> string \<Rightarrow> string \<Rightarrow> error + rat" where
  "evaluate_material be material domain =
     (let reference = (case LEARNING_MATERIALS domain of Some text \<Rightarrow> text | None \<Rightarrow> [])
      in bert_similarity be material reference)"

subsection \<open>create\_evaluation\_table\<close>

text \<open>
  A row of the table: the dictionary with the keys \<^verbatim>\<open>Domain\<close>,
  \<^verbatim>\<open>Generated Learning Material\<close>, \<^verbatim>\<open>Accuracy Score (%)\<close>, \<^verbatim>\<open>MCQs\<close> and \<^verbatim>\<open>Description\<close>.
\<close>

record row =
  row_Domain :: string
  row_Generated_Learning_Material :: string
  row_Accuracy_Score :: string
  row_MCQs :: string
  row_Description :: string

record metrics =
  accuracy :: rat
  precision :: rat
  recall :: rat
  f1 :: rat

text \<open>The inner loop over \<^verbatim>\<open>mcq["options"]\<close> and the loop over \<^verbatim>\<open>mcqs\<close>.\<close>

fun options_loop :: "string list \<Rightarrow> string list \<Rightarrow> string list" where
  "options_loop [] mcq_lines = mcq_lines"
| "options_loop (opt # opts) mcq_lines = options_loop opts (mcq_lines @ ['' - '' @ opt])"

fun mcqs_loop :: "mcq list \<Rightarrow> string list \<Rightarrow> string list" where
  "mcqs_loop [] mcq_lines = mcq_lines"
| "mcqs_loop (m # ms) mcq_lines =
     (let mcq_lines = mcq_lines @ [''Q: '' @ question m];
          mcq_lines = options_loop (options m) mcq_lines;
          mcq_lines = mcq_lines @ [''Answer: '' @ answer m];
          mcq_lines = mcq_lines @ [[]]
      in mcqs_loop ms mcq_lines)"

text \<open>The loop over \<^verbatim>\<open>domains\<close>; its state is \<^verbatim>\<open>(table, y_true, y_pred)\<close>.\<close>

fun domains_loop ::
  "backend \<Rightarrow> (string \<rightharpoonup> mcq list) \<Rightarrow> rat \<Rightarrow> string list \<Rightarrow>
   row list \<times> int list \<times> int list \<Rightarrow> error + (row list \<times> int list \<times> int list)" where
  "domains_loop be mcq_bank threshold [] state = Inr state"
| "domains_loop be mcq_bank threshold (domain # rest) (table, y_true, y_pred) =
     (let material = generate_learning_material domain
      in case evaluate_material be material domain of
           Inl e \<Rightarrow> Inl e
         | Inr score \<Rightarrow>
             (let mcqs = generate_mcqs domain mcq_bank;
                  y_true = y_true @ [1];
                  y_pred = y_pred @ [if threshold \<le> score then 1 else 0];
                  mcq_lines = mcqs_loop mcqs [];
                  mcq_text = str_join [CHR 0x0A] mcq_lines;
                  description =
                    (if 9 / 10 < score then ''Excellent alignment with reference material.''
                     else if 7 / 10 < score
                       then ''Good alignment but could improve in specific areas.''
                     else ''Moderate alignment, requires improvements in content generation.'');
                  table = table @
                    [\<lparr>row_Domain = domain,
                      row_Generated_Learning_Material = material,
                      row_Accuracy_Score = format_2f (score * 100) @ ''%'',
                      row_MCQs = mcq_text,
                      row_Description = description\<rparr>]
              in domains_loop be mcq_bank threshold rest (table, y_true, y_pred)))"

definition create_evaluation_table ::
  "sklearn_metrics option \<Rightarrow> backend \<Rightarrow> string list \<Rightarrow> (string \<rightharpoonup> mcq list) \<Rightarrow> rat \<Rightarrow>
   error + (row list \<times> metrics)" where
  "create_evaluation_table sklearn be domains mcq_bank threshold =
     (case domains_loop be mcq_bank threshold domains ([], [], []) of
        Inl e \<Rightarrow> Inl e
      | Inr (table, y_true, y_pred) \<Rightarrow>
          (case sklearn of
             Some sk \<Rightarrow>
               Inr (table,
                    \<lparr>accuracy = accuracy_score sk y_true y_pred,
                     precision = precision_score sk y_true y_pred,
                     recall = recall_score sk y_true y_pred,
                     f1 = f1_score sk y_true y_pred\<rparr>)
           | None \<Rightarrow>
               (case compute_metrics y_true y_pred of
                  Inl e \<Rightarrow> Inl e
                | Inr (acc, prec, rec, f1v) \<Rightarrow>
                    Inr (table, \<lparr>accuracy = acc, precision = prec, recall = rec, f1 = f1v\<rparr>))))"

section \<open>Notions used to state the properties\<close>

text \<open>The Jaccard index of two token sets, with the value 1 for two empty sets.\<close>

definition jaccard_index :: "string set \<Rightarrow> string set \<Rightarrow> rat" where
  "jaccard_index A B =
     (if A = {} \<and> B = {} then 1 else of_nat (card (A \<inter> B)) / of_nat (card (A \<union> B)))"

text \<open>
  The score that the loop of \<open>create_evaluation_table\<close> computes for a domain: the
  result of \<open>evaluate_material\<close> on the generated material (which never is an error,
  see \<open>evaluate_material_row_score\<close>).
\<close>

definition row_score :: "backend \<Rightarrow> string \<Rightarrow> rat" where
  "row_score be domain =
     (case evaluate_material be (generate_learning_material domain) domain of
        Inr score \<Rightarrow> score
      | Inl e \<Rightarrow> 0)"

text \<open>The predicted label of a domain at a threshold.\<close>

definition predicted_label :: "backend \<Rightarrow> rat \<Rightarrow> string \<Rightarrow> int" where
  "predicted_label be threshold domain = (if threshold \<le> row_score be domain then 1 else 0)"

text \<open>The number of rows of \<open>domains\<close> whose score reaches the threshold.\<close>

definition positives :: "backend \<Rightarrow> rat \<Rightarrow> string list \<Rightarrow> nat" where
  "positives be threshold domains = length (filter (\<lambda>d. threshold \<le> row_score be d) domains)"

text \<open>
  The lines of one question: its \<^verbatim>\<open>Q:\<close> line, one line per option, its \<^verbatim>\<open>Answer:\<close> line
  and the empty line that separates it from the next.
\<close>

definition mcq_block :: "mcq \<Rightarrow> string list" where
  "mcq_block m =
     [''Q: '' @ question m] @ map (\<lambda>opt. '' - '' @ opt) (options m) @
     [''Answer: '' @ answer m, []]"

text \<open>The row that one iteration of the loop appends.\<close>

definition loop_row :: "backend \<Rightarrow> (string \<rightharpoonup> mcq list) \<Rightarrow> string \<Rightarrow> row" where
  "loop_row be mcq_bank domain =
     \<lparr>row_Domain = domain,
      row_Generated_Learning_Material = generate_learning_material domain,
      row_Accuracy_Score = format_2f (row_score be domain * 100) @ ''%'',
      row_MCQs = str_join [CHR 0x0A] (mcqs_loop (generate_mcqs domain mcq_bank) []),
      row_Description =
        (if 9 / 10 < row_score be domain then ''Excellent alignment with reference material.''
         else if 7 / 10 < row_score be domain
           then ''Good alignment but could improve in specific areas.''
         else ''Moderate alignment, requires improvements in content generation.'')\<rparr>"

section \<open>Termination of the traversal\<close>

fun stack_size :: "OntologyNode list \<Rightarrow> nat" where
  "stack_size [] = 0"
| "stack_size (n # ns) = size n + stack_size ns"

lemma stack_size_append: "stack_size (xs @ ys) = stack_size xs + stack_size ys"
  by (induction xs) auto

lemma size_children: "stack_size (children n) < size n"
proof (cases n)
  case (OntologyNode a b c d e cs)
  have "stack_size cs \<le> size_list size cs"
    by (induction cs) auto
  with OntologyNode show ?thesis by simp
qed

lemma stack_size_pop:
  assumes "stack \<noteq> []"
  shows "stack_size (butlast stack @ children (last stack)) < stack_size stack"
proof -
  have "stack_size stack = stack_size (butlast stack) + size (last stack)"
    using assms stack_size_append [of "butlast stack" "[last stack]"] by simp
  then show ?thesis
    using size_children [of "last stack"] by (simp add: stack_size_append)
qed

termination iter_nodes_loop
  by (relation "measure stack_size") (auto simp: stack_size_pop)

declare str_of_nat.simps [simp del]

section \<open>The similarity never raises\<close>

lemma bert_similarity_lexical:
  "bert_similarity Lexical a b =
     Inr (jaccard_index (set (str_split (str_lower a))) (set (str_split (str_lower b))))"
proof -
  let ?A = "set (str_split (str_lower a))" and ?B = "set (str_split (str_lower b))"
  show ?thesis
  proof (cases "?A = {} \<and> ?B = {}")
    case True
    then show ?thesis by (simp add: jaccard_index_def)
  next
    case False
    then have "?A \<union> ?B \<noteq> {}" by simp
    moreover have "finite (?A \<union> ?B)" by simp
    ultimately have "card (?A \<union> ?B) \<noteq> 0" by (simp only: card_eq_0_iff) simp
    with False show ?thesis
      by (simp add: jaccard_index_def int_truediv_def Let_def)
  qed
qed

lemma bert_similarity_total: "\<exists>s. bert_similarity be a b = Inr s"
  by (cases be) (simp_all add: bert_similarity_lexical del: bert_similarity.simps(1))

lemma evaluate_material_row_score:
  "evaluate_material be (generate_learning_material d) d = Inr (row_score be d)"
proof -
  obtain s where "evaluate_material be (generate_learning_material d) d = Inr s"
    unfolding evaluate_material_def Let_def by (rule exE [OF bert_similarity_total]) blast
  then show ?thesis by (simp add: row_score_def)
qed

lemma jaccard_index_commute: "jaccard_index A B = jaccard_index B A"
  by (simp add: jaccard_index_def Int_commute Un_commute conj_commute)

lemma jaccard_index_self: "finite A \<Longrightarrow> jaccard_index A A = 1"
  by (simp add: jaccard_index_def)

section \<open>The loops as maps\<close>

lemma domains_loop_eq:
  "domains_loop be bank th ds (tb, yt, yp) =
     Inr (tb @ map (loop_row be bank) ds, yt @ map (\<lambda>d. 1) ds,
          yp @ map (predicted_label be th) ds)"
proof (induction ds arbitrary: tb yt yp)
  case Nil
  show ?case by simp
next
  case (Cons d ds)
  show ?case
    by (simp add: evaluate_material_row_score Let_def Cons.IH loop_row_def predicted_label_def)
qed

lemma options_loop_eq: "options_loop opts acc = acc @ map (\<lambda>opt. '' - '' @ opt) opts"
  by (induction opts arbitrary: acc) simp_all

lemma mcqs_loop_eq: "mcqs_loop ms acc = acc @ concat (map mcq_block ms)"
  by (induction ms arbitrary: acc) (simp_all add: options_loop_eq mcq_block_def Let_def)

lemma str_join_Cons_nonempty: "x \<noteq> [] \<Longrightarrow> str_join sep (x # xs) \<noteq> []"
  by (cases xs) simp_all

section \<open>The metrics of a run\<close>

lemma count_pairs_Nil: "count_pairs c [] [] = 0"
  by (simp add: count_pairs_def)

lemma count_pairs_Cons:
  "count_pairs c (t # ts) (p # ps) = (if c t p then 1 else 0) + count_pairs c ts ps"
  by (simp add: count_pairs_def)

lemma count_pairs_labels:
  "count_pairs c (map (\<lambda>d. 1) ds) (map (predicted_label be th) ds) =
     (if c 1 1 then int (positives be th ds) else 0) +
     (if c 1 0 then int (length ds) - int (positives be th ds) else 0)"
  by (induction ds) (auto simp: count_pairs_Nil count_pairs_Cons predicted_label_def positives_def)

lemma compute_metrics_labels:
  assumes "ds \<noteq> []"
  shows "compute_metrics (map (\<lambda>d. 1) ds) (map (predicted_label be th) ds) =
     (let k = positives be th ds;
          acc = of_nat k / of_nat (length ds);
          prec = (if 0 < k then 1 else 0)
      in Inr (acc, prec, acc,
              if prec + acc = 0 then 0 else 2 * prec * acc / (prec + acc)))"
proof -
  have n: "length ds \<noteq> 0" using assms by simp
  show ?thesis
  proof (cases "positives be th ds = 0")
    case True
    then show ?thesis
      using n by (simp add: compute_metrics_def count_pairs_labels int_truediv_def float_truediv_def)
  next
    case False
    then have "(of_nat (positives be th ds) :: rat) / of_nat (length ds) > 0"
      using n by simp
    then have "1 + (of_nat (positives be th ds) :: rat) / of_nat (length ds) \<noteq> 0"
      by linarith
    with False n show ?thesis
      by (simp add: compute_metrics_def count_pairs_labels int_truediv_def float_truediv_def Let_def)
  qed
qed

lemma create_evaluation_table_no_sklearn:
  assumes "domains \<noteq> []"
  shows "create_evaluation_table None be domains bank th =
     (let k = positives be th domains;
          acc = of_nat k / of_nat (length domains);
          prec = (if 0 < k then 1 else 0)
      in Inr (map (loop_row be bank) domains,
              \<lparr>accuracy = acc, precision = prec, recall = acc,
               f1 = (if prec + acc = 0 then 0 else 2 * prec * acc / (prec + acc))\<rparr>))"
  using domains_loop_eq [of be bank th domains "[]" "[]" "[]"] compute_metrics_labels [OF assms, of be th]
  by (simp add: create_evaluation_table_def Let_def)

lemma create_evaluation_table_rows:
  assumes "create_evaluation_table sk be domains bank th = Inr (table, m)"
  shows "table = map (loop_row be bank) domains"
  using assms domains_loop_eq [of be bank th domains "[]" "[]" "[]"]
  by (auto simp: create_evaluation_table_def split: option.splits sum.splits prod.splits)

lemma positives_mono:
  assumes "t1 \<le> t2"
  shows "positives be t2 ds \<le> positives be t1 ds"
proof (induction ds)
  case Nil
  show ?case by (simp add: positives_def)
next
  case (Cons d ds)
  then show ?case using assms by (auto simp: positives_def)
qed

lemma create_evaluation_table_returns:
  assumes "domains \<noteq> []"
  shows "\<exists>m. create_evaluation_table sk be domains bank th = Inr (map (loop_row be bank) domains, m)"
proof (cases sk)
  case None
  then show ?thesis
    using create_evaluation_table_no_sklearn [OF assms, of be bank th] by (simp add: Let_def)
next
  case (Some s)
  then show ?thesis
    using domains_loop_eq [of be bank th domains "[]" "[]" "[]"]
    by (simp add: create_evaluation_table_def)
qed

lemma count_predicted:
  "length (filter (\<lambda>p. p = 1) (map (predicted_label be th) ds)) = positives be th ds"
  by (induction ds) (simp_all add: positives_def predicted_label_def)


section \<open>Evaluations\<close>

lemma LEARNING_MATERIALS_Lists:
  "LEARNING_MATERIALS ''Lists'' = Some ''Mutable ordered collections.''"
  by code_simp

lemma LEARNING_MATERIALS_Quantum: "LEARNING_MATERIALS ''Quantum'' = None"
  by code_simp

lemma str_of_nat_100: "str_of_nat 100 = ''100''"
  by (simp add: str_of_nat.simps [of 100] str_of_nat.simps [of 10] str_of_nat.simps [of "Suc 0"]
      digit_char_def)

lemma round_half_even_of_int: "round_half_even (of_int z) = z"
  by (simp add: round_half_even_def)

lemma format_2f_100: "format_2f (1 * 100) = ''100.00''"
proof -
  have "round_half_even (\<bar>1 * 100\<bar> * 100) = 10000"
    using round_half_even_of_int [of 10000] by simp
  then show ?thesis
    by (simp add: format_2f_def str_of_nat_100 digit_char_def)
qed

lemma row_score_lexical_present:
  assumes "LEARNING_MATERIALS d = Some r"
  shows "row_score Lexical d = 1"
  using assms
  by (simp add: row_score_def evaluate_material_def generate_learning_material_def
      bert_similarity_lexical jaccard_index_self del: bert_similarity.simps)


section \<open>The formatted questions\<close>

lemma generate_mcqs_Nil_iff:
  "generate_mcqs d bank = [] \<longleftrightarrow> (bank d = None \<or> bank d = Some [])"
  by (simp add: generate_mcqs_def split: option.splits)

lemma mcq_text_Nil_iff:
  "str_join [CHR 0x0A] (concat (map mcq_block ms)) = [] \<longleftrightarrow> ms = []"
proof (cases ms)
  case Nil
  then show ?thesis by simp
next
  case (Cons q qs)
  have "str_join [CHR 0x0A] ((''Q: '' @ question q) # rest) \<noteq> []" for rest
    by (rule str_join_Cons_nonempty) simp
  then show ?thesis using Cons by (simp add: mcq_block_def)
qed


section \<open>Properties\<close>

text \<open>
  C1. The specification has the call on the empty sequence of domains return no rows and
  metrics that are all 0.0, every division being guarded. In \<open>compute_metrics\<close> the
  divisions of precision, recall and F1 are guarded, the division of the accuracy is not:
  on two empty label lists it evaluates \<open>0 / 0\<close>. So without scikit-learn the call on the
  empty sequence raises \<^verbatim>\<open>ZeroDivisionError\<close>, whatever the backend, the bank and the
  threshold.
\<close>

theorem create_evaluation_table_empty_raises:
  "create_evaluation_table None be [] mcq_bank threshold = Inl ZeroDivisionError
   \<and> compute_metrics [] [] = Inl ZeroDivisionError"
  by (simp add: create_evaluation_table_def compute_metrics_def count_pairs_def int_truediv_def)

text \<open>
  C3. With the lexical backend the score of two texts is the Jaccard index of their sets
  of lower-cased whitespace-separated tokens, 1 when both sets are empty, and the call
  never raises; the score of \<^verbatim>\<open>"the cat sat"\<close> and \<^verbatim>\<open>"the dog sat"\<close> is one half.
\<close>

theorem lexical_score_is_jaccard:
  "bert_similarity Lexical a b =
     Inr (jaccard_index (set (str_split (str_lower a))) (set (str_split (str_lower b))))
   \<and> bert_similarity Lexical ''the cat sat'' ''the dog sat'' = Inr (1 / 2)"
proof -
  have "bert_similarity Lexical ''the cat sat'' ''the dog sat'' = Inr (1 / 2)"
    by code_simp
  then show ?thesis
    using bert_similarity_lexical [of a b] by blast
qed

text \<open>
  C8. With the lexical backend the score is symmetric in its two texts.
\<close>

theorem lexical_score_symmetric:
  "bert_similarity Lexical a b = bert_similarity Lexical b a"
  unfolding bert_similarity_lexical by (simp add: jaccard_index_commute)

text \<open>
  C6. For a domain that the reference-text lookup does not hold, \<open>evaluate_material\<close>
  returns what scoring the candidate against the empty string returns, and that is a
  score, never an error.
\<close>

theorem evaluate_material_missing_domain:
  assumes "LEARNING_MATERIALS domain = None"
  shows "evaluate_material be candidate domain = bert_similarity be candidate []
         \<and> (\<exists>score. evaluate_material be candidate domain = Inr score)"
  using assms bert_similarity_total [of be candidate "[]"]
  by (simp add: evaluate_material_def)

theorem evaluate_material_missing_domain_witness:
  "LEARNING_MATERIALS ''Quantum'' = None
   \<and> evaluate_material Lexical ''python lists'' ''Quantum'' =
     bert_similarity Lexical ''python lists'' []
   \<and> evaluate_material Lexical ''python lists'' ''Quantum'' = Inr 0"
proof -
  have absent: "LEARNING_MATERIALS ''Quantum'' = None"
    by (rule LEARNING_MATERIALS_Quantum)
  have "bert_similarity Lexical ''python lists'' [] = Inr 0"
    by code_simp
  with absent evaluate_material_missing_domain [OF absent, of Lexical "''python lists''"]
  show ?thesis by simp
qed

text \<open>
  C2. Without scikit-learn, for a non-empty sequence of domains the call returns one row
  per domain and metrics where, \<open>k\<close> being the number of domains whose score reaches the
  threshold and \<open>n\<close> the number of domains: the accuracy is \<open>k / n\<close>, the recall equals
  the accuracy, the precision is 1 when \<open>k\<close> is positive and 0 otherwise, and F1 is
  \<open>2 * precision * recall / (precision + recall)\<close>, or 0 when that sum is 0. The score
  of a domain, \<open>row_score\<close>, is what \<open>evaluate_material\<close> returns on its material.
\<close>

theorem metrics_of_nonempty_table:
  assumes "domains \<noteq> []"
  shows "\<exists>table m. create_evaluation_table None be domains mcq_bank threshold = Inr (table, m)
     \<and> length table = length domains
     \<and> accuracy m = of_nat (positives be threshold domains) / of_nat (length domains)
     \<and> recall m = accuracy m
     \<and> precision m = (if 0 < positives be threshold domains then 1 else 0)
     \<and> f1 m = (if precision m + recall m = 0 then 0
               else 2 * precision m * recall m / (precision m + recall m))
     \<and> (\<forall>d. evaluate_material be (generate_learning_material d) d = Inr (row_score be d))"
  using create_evaluation_table_no_sklearn [OF assms, of be mcq_bank threshold]
  by (simp add: Let_def evaluate_material_row_score)

theorem metrics_of_nonempty_table_witness:
  "[''Lists'', ''Quantum''] \<noteq> []
   \<and> (\<exists>table m. create_evaluation_table None Lexical [''Lists'', ''Quantum''] Map.empty (9 / 10)
          = Inr (table, m)
        \<and> length table = 2 \<and> accuracy m = 1 / 2 \<and> recall m = 1 / 2 \<and> precision m = 1
        \<and> f1 m = 2 / 3)"
proof -
  have ne: "[''Lists'', ''Quantum''] \<noteq> []" by simp
  have k: "positives Lexical (9 / 10) [''Lists'', ''Quantum''] = 1"
    by code_simp
  obtain table m where
    r: "create_evaluation_table None Lexical [''Lists'', ''Quantum''] Map.empty (9 / 10) = Inr (table, m)"
    and l: "length table = length [''Lists'', ''Quantum'']"
    and a: "accuracy m = of_nat (positives Lexical (9 / 10) [''Lists'', ''Quantum'']) /
              of_nat (length [''Lists'', ''Quantum''])"
    and rc: "recall m = accuracy m"
    and p: "precision m = (if 0 < positives Lexical (9 / 10) [''Lists'', ''Quantum''] then 1 else 0)"
    and f: "f1 m = (if precision m + recall m = 0 then 0
               else 2 * precision m * recall m / (precision m + recall m))"
    using metrics_of_nonempty_table [OF ne, of Lexical Map.empty "9 / 10"] by blast
  have "accuracy m = 1 / 2" using a k by simp
  moreover have "recall m = 1 / 2" using rc a k by simp
  moreover have "precision m = 1" using p k by simp
  ultimately have "f1 m = (if 1 + 1 / 2 = (0 :: rat) then 0 else 2 * 1 * (1 / 2) / (1 + 1 / 2))"
    using f by (simp only:)
  then have "f1 m = 2 / 3" by simp
  with r l \<open>accuracy m = 1 / 2\<close> \<open>recall m = 1 / 2\<close> \<open>precision m = 1\<close> ne
  show ?thesis by simp
qed


text \<open>
  C7. For thresholds \<open>t1 \<le> t2\<close>, every sequence of domains and every bank: the loop
  returns at both thresholds and the labels it predicts at \<open>t2\<close> hold no more ones than
  those at \<open>t1\<close>; whenever the call without scikit-learn returns at both thresholds, the
  accuracy and the recall at \<open>t2\<close> are at most those at \<open>t1\<close>; and for a non-empty
  sequence it does return at both.
\<close>

theorem predicted_positives_antitone:
  assumes "t1 \<le> t2"
  shows "(\<exists>table1 y_true1 y_pred1 table2 y_true2 y_pred2.
            domains_loop be mcq_bank t1 domains ([], [], []) = Inr (table1, y_true1, y_pred1)
          \<and> domains_loop be mcq_bank t2 domains ([], [], []) = Inr (table2, y_true2, y_pred2)
          \<and> length (filter (\<lambda>p. p = 1) y_pred2) \<le> length (filter (\<lambda>p. p = 1) y_pred1))
     \<and> (\<forall>table1 m1 table2 m2.
            create_evaluation_table None be domains mcq_bank t1 = Inr (table1, m1)
          \<and> create_evaluation_table None be domains mcq_bank t2 = Inr (table2, m2)
          \<longrightarrow> accuracy m2 \<le> accuracy m1 \<and> recall m2 \<le> recall m1)
     \<and> (domains \<noteq> [] \<longrightarrow> (\<exists>table1 m1 table2 m2.
            create_evaluation_table None be domains mcq_bank t1 = Inr (table1, m1)
          \<and> create_evaluation_table None be domains mcq_bank t2 = Inr (table2, m2)))"
proof (intro conjI)
  show "\<exists>table1 y_true1 y_pred1 table2 y_true2 y_pred2.
            domains_loop be mcq_bank t1 domains ([], [], []) = Inr (table1, y_true1, y_pred1)
          \<and> domains_loop be mcq_bank t2 domains ([], [], []) = Inr (table2, y_true2, y_pred2)
          \<and> length (filter (\<lambda>p. p = 1) y_pred2) \<le> length (filter (\<lambda>p. p = 1) y_pred1)"
  proof (intro exI conjI)
    show "domains_loop be mcq_bank t1 domains ([], [], []) =
        Inr ([] @ map (loop_row be mcq_bank) domains, [] @ map (\<lambda>d. 1) domains,
             [] @ map (predicted_label be t1) domains)"
      by (rule domains_loop_eq)
    show "domains_loop be mcq_bank t2 domains ([], [], []) =
        Inr ([] @ map (loop_row be mcq_bank) domains, [] @ map (\<lambda>d. 1) domains,
             [] @ map (predicted_label be t2) domains)"
      by (rule domains_loop_eq)
    show "length (filter (\<lambda>p. p = 1) ([] @ map (predicted_label be t2) domains))
        \<le> length (filter (\<lambda>p. p = 1) ([] @ map (predicted_label be t1) domains))"
      by (simp only: append_Nil count_predicted positives_mono [OF assms])
  qed
next
  show "\<forall>table1 m1 table2 m2.
            create_evaluation_table None be domains mcq_bank t1 = Inr (table1, m1)
          \<and> create_evaluation_table None be domains mcq_bank t2 = Inr (table2, m2)
          \<longrightarrow> accuracy m2 \<le> accuracy m1 \<and> recall m2 \<le> recall m1"
  proof (cases "domains = []")
    case True
    then show ?thesis
      by (simp add: create_evaluation_table_def compute_metrics_def count_pairs_def
          int_truediv_def)
  next
    case False
    have "(of_nat (positives be t2 domains) :: rat) / of_nat (length domains)
            \<le> of_nat (positives be t1 domains) / of_nat (length domains)"
      using positives_mono [OF assms, of be domains] by (simp add: divide_right_mono)
    then show ?thesis
      by (simp add: create_evaluation_table_no_sklearn [OF False] Let_def)
  qed
next
  show "domains \<noteq> [] \<longrightarrow> (\<exists>table1 m1 table2 m2.
            create_evaluation_table None be domains mcq_bank t1 = Inr (table1, m1)
          \<and> create_evaluation_table None be domains mcq_bank t2 = Inr (table2, m2))"
    by (simp add: create_evaluation_table_no_sklearn Let_def)
qed

theorem predicted_positives_antitone_witness:
  "(0 :: rat) \<le> 1 / 2 \<and> [''Lists'', ''Quantum''] \<noteq> []
   \<and> (\<exists>table1 m1 table2 m2.
         create_evaluation_table None Lexical [''Lists'', ''Quantum''] Map.empty 0 = Inr (table1, m1)
       \<and> create_evaluation_table None Lexical [''Lists'', ''Quantum''] Map.empty (1 / 2)
           = Inr (table2, m2)
       \<and> accuracy m2 \<le> accuracy m1 \<and> recall m2 \<le> recall m1)"
proof -
  have le: "(0 :: rat) \<le> 1 / 2" by simp
  have ne: "[''Lists'', ''Quantum''] \<noteq> []" by simp
  note mono = predicted_positives_antitone [OF le, of Lexical Map.empty "[''Lists'', ''Quantum'']"]
  from mono ne obtain table1 m1 table2 m2 where
    r: "create_evaluation_table None Lexical [''Lists'', ''Quantum''] Map.empty 0 = Inr (table1, m1)"
       "create_evaluation_table None Lexical [''Lists'', ''Quantum''] Map.empty (1 / 2)
           = Inr (table2, m2)"
    by blast
  with mono have "accuracy m2 \<le> accuracy m1 \<and> recall m2 \<le> recall m1"
    by blast
  with r le ne show ?thesis by blast
qed

text \<open>
  C4. In every row that \<open>create_evaluation_table\<close> returns, the verdict is fixed by the
  score of the row's domain alone: above 0.9 it is the Excellent sentence, else above 0.7
  the Good one, else the Moderate one, both comparisons strict, so that a score of
  exactly 0.9 gives Good and one of exactly 0.7 gives Moderate. The threshold of the
  metrics plays no part: the call returns the same table at any other threshold.
\<close>

theorem verdict_by_strict_comparison:
  assumes "create_evaluation_table sk be domains mcq_bank threshold = Inr (table, m)"
    and "i < length domains"
  shows "\<exists>score. evaluate_material be (generate_learning_material (domains ! i)) (domains ! i)
            = Inr score
     \<and> length table = length domains
     \<and> row_Domain (table ! i) = domains ! i
     \<and> row_Description (table ! i) =
         (if 9 / 10 < score then ''Excellent alignment with reference material.''
          else if 7 / 10 < score then ''Good alignment but could improve in specific areas.''
          else ''Moderate alignment, requires improvements in content generation.'')
     \<and> (score = 9 / 10 \<longrightarrow>
          row_Description (table ! i) = ''Good alignment but could improve in specific areas.'')
     \<and> (score = 7 / 10 \<longrightarrow>
          row_Description (table ! i) =
            ''Moderate alignment, requires improvements in content generation.'')
     \<and> (\<forall>threshold' table' m'.
          create_evaluation_table sk be domains mcq_bank threshold' = Inr (table', m')
          \<longrightarrow> table' = table)"
proof -
  have t: "table = map (loop_row be mcq_bank) domains"
    using assms(1) by (rule create_evaluation_table_rows)
  have same: "\<forall>threshold' table' m'.
          create_evaluation_table sk be domains mcq_bank threshold' = Inr (table', m')
          \<longrightarrow> table' = table"
    using t create_evaluation_table_rows by blast
  have row: "table ! i = loop_row be mcq_bank (domains ! i)"
    using t assms(2) by simp
  show ?thesis
  proof (intro exI conjI)
    show "evaluate_material be (generate_learning_material (domains ! i)) (domains ! i)
            = Inr (row_score be (domains ! i))"
      by (rule evaluate_material_row_score)
    show "length table = length domains" using t by simp
    show "row_Domain (table ! i) = domains ! i" by (simp add: row loop_row_def)
    show "row_Description (table ! i) =
         (if 9 / 10 < row_score be (domains ! i) then ''Excellent alignment with reference material.''
          else if 7 / 10 < row_score be (domains ! i)
            then ''Good alignment but could improve in specific areas.''
          else ''Moderate alignment, requires improvements in content generation.'')"
      by (simp add: row loop_row_def)
    show "row_score be (domains ! i) = 9 / 10 \<longrightarrow>
          row_Description (table ! i) = ''Good alignment but could improve in specific areas.''"
      by (simp add: row loop_row_def)
    show "row_score be (domains ! i) = 7 / 10 \<longrightarrow>
          row_Description (table ! i) =
            ''Moderate alignment, requires improvements in content generation.''"
      by (simp add: row loop_row_def)
    show "\<forall>threshold' table' m'.
          create_evaluation_table sk be domains mcq_bank threshold' = Inr (table', m')
          \<longrightarrow> table' = table"
      by (rule same)
  qed
qed

theorem verdict_by_strict_comparison_witness:
  "\<exists>table m.
     create_evaluation_table None (Embedding (\<lambda>a b. 9 / 10)) [''Lists''] Map.empty (1 / 2)
       = Inr (table, m)
     \<and> (0 :: nat) < length [''Lists'']
     \<and> evaluate_material (Embedding (\<lambda>a b. 9 / 10)) (generate_learning_material ''Lists'')
         ''Lists'' = Inr (9 / 10)
     \<and> row_Description (table ! 0) = ''Good alignment but could improve in specific areas.''"
proof -
  let ?be = "Embedding (\<lambda>a b. 9 / 10)"
  have i: "(0 :: nat) < length [''Lists'']" by simp
  have s: "evaluate_material ?be (generate_learning_material ''Lists'') ''Lists'' = Inr (9 / 10)"
    by (simp add: evaluate_material_def generate_learning_material_def LEARNING_MATERIALS_Lists)
  obtain m where r: "create_evaluation_table None ?be [''Lists''] Map.empty (1 / 2)
      = Inr (map (loop_row ?be Map.empty) [''Lists''], m)"
    using create_evaluation_table_returns [of "[''Lists'']"] by blast
  obtain score where
    "evaluate_material ?be (generate_learning_material ([''Lists''] ! 0)) ([''Lists''] ! 0)
       = Inr score"
    and "score = 9 / 10 \<longrightarrow>
      row_Description (map (loop_row ?be Map.empty) [''Lists''] ! 0)
        = ''Good alignment but could improve in specific areas.''"
    using verdict_by_strict_comparison [OF r i] by blast
  with s have "row_Description (map (loop_row ?be Map.empty) [''Lists''] ! 0)
      = ''Good alignment but could improve in specific areas.''"
    by simp
  with r i s show ?thesis by blast
qed

text \<open>
  C5. The specification gives the one row for the single domain \<^verbatim>\<open>Lists\<close>, with a bank
  that has no entry for it, no formatted questions and the sentinel as material. The material comes
  from the reference texts, not from the bank, and the ontology has a node \<^verbatim>\<open>Lists\<close>: the
  row has no formatted questions and the material \<^verbatim>\<open>Mutable ordered collections.\<close> The
  sentinel is the material of the one row for a domain that neither the reference texts
  nor the bank hold.
\<close>

theorem single_domain_without_questions:
  "(mcq_bank ''Lists'' = None \<longrightarrow>
      (\<exists>r m. create_evaluation_table sk be [''Lists''] mcq_bank threshold = Inr ([r], m)
         \<and> row_MCQs r = []
         \<and> row_Generated_Learning_Material r = ''Mutable ordered collections.''))
   \<and> (LEARNING_MATERIALS domain = None \<and> mcq_bank domain = None \<longrightarrow>
      (\<exists>r m. create_evaluation_table sk be [domain] mcq_bank threshold = Inr ([r], m)
         \<and> row_MCQs r = []
         \<and> row_Generated_Learning_Material r = ''No materials available for this topic.''))"
proof -
  have ret: "\<exists>m. create_evaluation_table sk be [d] mcq_bank threshold
      = Inr ([loop_row be mcq_bank d], m)" for d
    using create_evaluation_table_returns [of "[d]" sk be mcq_bank threshold] by simp
  have no_q: "mcq_bank d = None \<Longrightarrow> row_MCQs (loop_row be mcq_bank d) = []" for d
    by (simp add: loop_row_def generate_mcqs_def)
  have lists: "row_Generated_Learning_Material (loop_row be mcq_bank ''Lists'')
      = ''Mutable ordered collections.''"
    by (simp add: loop_row_def generate_learning_material_def LEARNING_MATERIALS_Lists)
  have absent: "LEARNING_MATERIALS domain = None \<Longrightarrow>
      row_Generated_Learning_Material (loop_row be mcq_bank domain)
        = ''No materials available for this topic.''"
    by (simp add: loop_row_def generate_learning_material_def)
  show ?thesis
    using ret [of "''Lists''"] ret [of domain] no_q lists absent by blast
qed

theorem single_domain_without_questions_witness:
  "Map.empty ''Lists'' = (None :: mcq list option)
   \<and> LEARNING_MATERIALS ''Quantum'' = None \<and> Map.empty ''Quantum'' = (None :: mcq list option)
   \<and> (\<exists>r m. create_evaluation_table None Lexical [''Lists''] Map.empty (9 / 10) = Inr ([r], m)
         \<and> row_MCQs r = []
         \<and> row_Generated_Learning_Material r = ''Mutable ordered collections.'')
   \<and> (\<exists>r m. create_evaluation_table None Lexical [''Quantum''] Map.empty (9 / 10) = Inr ([r], m)
         \<and> row_MCQs r = []
         \<and> row_Generated_Learning_Material r = ''No materials available for this topic.'')"
  using single_domain_without_questions [of Map.empty None Lexical "9 / 10" "''Quantum''"]
    LEARNING_MATERIALS_Quantum
  by simp

text \<open>
  The call on \<^verbatim>\<open>Lists\<close> with the empty bank, the lexical backend and the default
  threshold, evaluated: the material of its row is not the sentinel.
\<close>

theorem lists_material_counterexample:
  "create_evaluation_table None Lexical [''Lists''] Map.empty (9 / 10) =
     Inr ([\<lparr>row_Domain = ''Lists'',
            row_Generated_Learning_Material = ''Mutable ordered collections.'',
            row_Accuracy_Score = ''100.00%'',
            row_MCQs = [],
            row_Description = ''Excellent alignment with reference material.''\<rparr>],
          \<lparr>accuracy = 1, precision = 1, recall = 1, f1 = 1\<rparr>)
   \<and> ''Mutable ordered collections.'' \<noteq> ''No materials available for this topic.''"
proof -
  have s: "row_score Lexical ''Lists'' = 1"
    using LEARNING_MATERIALS_Lists by (rule row_score_lexical_present)
  have k: "positives Lexical (9 / 10) [''Lists''] = 1"
    by (simp add: positives_def s)
  have "create_evaluation_table None Lexical [''Lists''] Map.empty (9 / 10) =
     Inr ([\<lparr>row_Domain = ''Lists'',
            row_Generated_Learning_Material = ''Mutable ordered collections.'',
            row_Accuracy_Score = ''100.00%'',
            row_MCQs = [],
            row_Description = ''Excellent alignment with reference material.''\<rparr>],
          \<lparr>accuracy = 1, precision = 1, recall = 1, f1 = 1\<rparr>)"
    using format_2f_100
    by (simp add: create_evaluation_table_no_sklearn k s loop_row_def
        generate_learning_material_def LEARNING_MATERIALS_Lists generate_mcqs_def)
  then show ?thesis by simp
qed


text \<open>
  C9. With the lexical backend, a domain that the reference texts hold is scored exactly
  1 (its material is its reference text). In the run of the loop over any sequence that
  has the domain at position \<open>i\<close>, row \<open>i\<close> carries the reference text, the score
  \<^verbatim>\<open>100.00%\<close> and the Excellent verdict, and the predicted label at \<open>i\<close> is 1 for every
  threshold up to 1; the table of \<open>create_evaluation_table\<close> is the table of that run.
\<close>

theorem lexical_reference_row:
  assumes "LEARNING_MATERIALS domain = Some reference"
    and "i < length domains" and "domains ! i = domain"
  shows "evaluate_material Lexical (generate_learning_material domain) domain = Inr 1
     \<and> (\<exists>table y_true y_pred.
           domains_loop Lexical mcq_bank threshold domains ([], [], []) = Inr (table, y_true, y_pred)
         \<and> row_Domain (table ! i) = domain
         \<and> row_Generated_Learning_Material (table ! i) = reference
         \<and> row_Accuracy_Score (table ! i) = ''100.00%''
         \<and> row_Description (table ! i) = ''Excellent alignment with reference material.''
         \<and> (threshold \<le> 1 \<longrightarrow> y_pred ! i = 1)
         \<and> (\<forall>sk t m. create_evaluation_table sk Lexical domains mcq_bank threshold = Inr (t, m)
               \<longrightarrow> t = table))"
proof -
  have s: "row_score Lexical domain = 1"
    using assms(1) by (rule row_score_lexical_present)
  have e: "evaluate_material Lexical (generate_learning_material domain) domain = Inr 1"
    using evaluate_material_row_score [of Lexical domain] s by simp
  let ?table = "map (loop_row Lexical mcq_bank) domains"
  let ?y_pred = "map (predicted_label Lexical threshold) domains"
  have run: "domains_loop Lexical mcq_bank threshold domains ([], [], [])
      = Inr (?table, map (\<lambda>d. 1) domains, ?y_pred)"
    using domains_loop_eq [of Lexical mcq_bank threshold domains "[]" "[]" "[]"] by simp
  have row: "?table ! i = loop_row Lexical mcq_bank domain"
    using assms(2,3) by simp
  have "row_Domain (?table ! i) = domain"
    by (simp only: row) (simp add: loop_row_def)
  moreover have "row_Generated_Learning_Material (?table ! i) = reference"
    using assms(1) by (simp only: row) (simp add: loop_row_def generate_learning_material_def)
  moreover have "row_Accuracy_Score (?table ! i) = ''100.00%''"
    using format_2f_100 by (simp only: row) (simp add: loop_row_def s)
  moreover have "row_Description (?table ! i) = ''Excellent alignment with reference material.''"
    by (simp only: row) (simp add: loop_row_def s)
  moreover have "threshold \<le> 1 \<longrightarrow> ?y_pred ! i = 1"
    using assms(2,3) by (simp add: predicted_label_def s)
  moreover have "\<forall>sk t m. create_evaluation_table sk Lexical domains mcq_bank threshold = Inr (t, m)
               \<longrightarrow> t = ?table"
    using create_evaluation_table_rows by blast
  ultimately show ?thesis using e run by blast
qed

theorem lexical_reference_row_witness:
  "LEARNING_MATERIALS ''Lists'' = Some ''Mutable ordered collections.''
   \<and> (1 :: nat) < length [''Quantum'', ''Lists''] \<and> [''Quantum'', ''Lists''] ! 1 = ''Lists''
   \<and> (9 / 10 :: rat) \<le> 1
   \<and> evaluate_material Lexical (generate_learning_material ''Lists'') ''Lists'' = Inr 1
   \<and> (\<exists>table y_true y_pred.
         domains_loop Lexical Map.empty (9 / 10) [''Quantum'', ''Lists''] ([], [], [])
           = Inr (table, y_true, y_pred)
       \<and> row_Description (table ! 1) = ''Excellent alignment with reference material.''
       \<and> y_pred ! 1 = 1)"
proof -
  have i: "(1 :: nat) < length [''Quantum'', ''Lists'']" by simp
  have d: "[''Quantum'', ''Lists''] ! 1 = ''Lists''" by simp
  have t: "(9 / 10 :: rat) \<le> 1" by simp
  from lexical_reference_row [OF LEARNING_MATERIALS_Lists i d, of Map.empty "9 / 10"] t
  show ?thesis
    using LEARNING_MATERIALS_Lists i d by blast
qed

text \<open>
  C10. In every row that \<open>create_evaluation_table\<close> returns, the formatted questions are
  the empty string exactly when the bank holds no question for the row's domain (no entry,
  or an empty list). In any case they are the lines of the domain's questions joined by
  line feeds, each question giving its \<^verbatim>\<open>Q:\<close> line, one \<^verbatim>\<open> - \<close> line per option, its
  \<^verbatim>\<open>Answer:\<close> line and an empty line.
\<close>

theorem formatted_mcq_text:
  assumes "create_evaluation_table sk be domains mcq_bank threshold = Inr (table, m)"
    and "i < length domains"
  shows "(row_MCQs (table ! i) = [] \<longleftrightarrow>
           (mcq_bank (domains ! i) = None \<or> mcq_bank (domains ! i) = Some []))
     \<and> row_MCQs (table ! i) =
         str_join [CHR 0x0A] (concat (map mcq_block (generate_mcqs (domains ! i) mcq_bank)))"
proof -
  have "table = map (loop_row be mcq_bank) domains"
    using assms(1) by (rule create_evaluation_table_rows)
  then have "table ! i = loop_row be mcq_bank (domains ! i)"
    using assms(2) by simp
  then have mcq_eq: "row_MCQs (table ! i) =
      str_join [CHR 0x0A] (concat (map mcq_block (generate_mcqs (domains ! i) mcq_bank)))"
    by (simp add: loop_row_def mcqs_loop_eq)
  then show ?thesis
    by (simp only: mcq_text_Nil_iff generate_mcqs_Nil_iff)
qed

theorem formatted_mcq_text_witness:
  "\<exists>table m.
     create_evaluation_table None Lexical [''Lists'', ''Quantum'']
       [''Lists'' \<mapsto> [\<lparr>question = ''What is a list?'', options = [''a'', ''b'', ''c'', ''d''],
                       answer = ''a'', mcq_difficulty = ''Beginner''\<rparr>]] (9 / 10) = Inr (table, m)
     \<and> row_MCQs (table ! 0) =
         ''Q: What is a list?'' @ [CHR 0x0A] @ '' - a'' @ [CHR 0x0A] @ '' - b'' @ [CHR 0x0A] @
         '' - c'' @ [CHR 0x0A] @ '' - d'' @ [CHR 0x0A] @ ''Answer: a'' @ [CHR 0x0A]
     \<and> row_MCQs (table ! 1) = []"
proof -
  let ?bank = "[''Lists'' \<mapsto> [\<lparr>question = ''What is a list?'', options = [''a'', ''b'', ''c'', ''d''],
                       answer = ''a'', mcq_difficulty = ''Beginner''\<rparr>]]"
  let ?ds = "[''Lists'', ''Quantum'']"
  obtain m where r: "create_evaluation_table None Lexical ?ds ?bank (9 / 10)
      = Inr (map (loop_row Lexical ?bank) ?ds, m)"
    using create_evaluation_table_returns [of ?ds] by blast
  have i0: "0 < length ?ds" and i1: "1 < length ?ds" by simp_all
  have "row_MCQs (map (loop_row Lexical ?bank) ?ds ! 0) =
         ''Q: What is a list?'' @ [CHR 0x0A] @ '' - a'' @ [CHR 0x0A] @ '' - b'' @ [CHR 0x0A] @
         '' - c'' @ [CHR 0x0A] @ '' - d'' @ [CHR 0x0A] @ ''Answer: a'' @ [CHR 0x0A]"
    using formatted_mcq_text [OF r i0] by (simp add: generate_mcqs_def mcq_block_def)
  moreover have "row_MCQs (map (loop_row Lexical ?bank) ?ds ! 1) = []"
    using formatted_mcq_text [OF r i1] by simp
  ultimately show ?thesis using r by blast
qed

end
